theory Spec2Isabelle
  imports Main
begin

section \<open>Data model of main.go\<close>

text \<open>
  \<^verbatim>\<open>type Channel struct\<close>: one entry of the SomaFM catalog. Strings are byte strings, as
  Go's are; \<open>Listeners\<close> is a Go \<open>int\<close> that is only printed, never computed with.
  The field \<open>Image\<close> is written \<open>Image'\<close> because HOL already has a constant of that name.
\<close>

record Channel =
  ID :: string
  Title :: string
  Description :: string
  Genre :: string
  Image' :: string
  DJ :: string
  Listeners :: int
  FastPLS :: string

text \<open>
  \<^verbatim>\<open>[]Channel\<close>: a slice is a view on a backing array. The program never writes to a
  backing array after \<open>fetchChannels\<close> has returned it, but it compares addresses of
  elements (\<^verbatim>\<open>m.selected == &m.channels[m.cursor]\<close>), so the slice carries the address of
  its array beside its (immutable) elements. The nil slice has no elements.
\<close>

type_synonym addr = nat

record chan_slice =
  arr :: addr
  elems :: "Channel list"

text \<open>\<^verbatim>\<open>*Channel\<close>: every non-nil pointer of the program is the address of a slice element.\<close>

datatype chan_ptr = ElemPtr addr nat

datatype playerState = stopped | playing

definition titleWidth :: nat where "titleWidth = 30"
definition genreWidth :: nat where "genreWidth = 25"
definition statsWidth :: nat where "statsWidth = 10"

text \<open>A Go \<open>error\<close> value is known by its message; a nil \<open>error\<close> is \<open>None\<close>.\<close>

datatype error = ErrorString string

fun error_string :: "error \<Rightarrow> string" where
  "error_string (ErrorString s) = s"

text \<open>\<^verbatim>\<open>*exec.Cmd\<close>: a non-nil pointer to a process descriptor; nil is \<open>None\<close>.\<close>

type_synonym handle = nat

record model =
  channels :: chan_slice
  cursor :: int
  selected :: "chan_ptr option"
  err :: "error option"
  loading :: bool
  playerState :: playerState
  player :: "handle option"

definition nil_slice :: chan_slice where
  "nil_slice = \<lparr>arr = 0, elems = []\<rparr>"

definition initialModel :: model where
  "initialModel = \<lparr>channels = nil_slice, cursor = 0, selected = None, err = None,
     loading = True, playerState = stopped, player = None\<rparr>"

subsection \<open>Messages and commands\<close>

text \<open>
  The message types of main.go, \<open>tea.KeyMsg\<close> by the value of its \<open>String()\<close>, and
  \<open>otherMsg\<close> for every message of the runtime that the type switch of \<open>Update\<close> has no
  case for.
\<close>

datatype msg =
    KeyMsg string
  | startPlaybackMsg "handle option"
  | stopPlaybackMsg
  | playbackErrorMsg "error option"
  | channelsMsg chan_slice
  | errMsg "error option"
  | otherMsg

text \<open>
  A \<open>tea.Cmd\<close> is a closure that the runtime runs outside the loop; the model names the
  closures that main.go builds. \<open>errCmd e\<close> is the anonymous closure returning
  \<^verbatim>\<open>errMsg{err}\<close>; \<open>teaSequence\<close> is \<open>tea.Sequence\<close>, which runs its commands one at a time,
  in order; a nil command is \<open>None\<close>.
\<close>

datatype cmd =
    fetchChannels
  | startPlayback string
  | stopPlayback "handle option"
  | teaQuit
  | errCmd error
  | teaSequence "cmd list"

text \<open>
  What the three closures of main.go deliver when run. The operating system is a
  parameter: \<open>start url\<close> is \<^verbatim>\<open>exec.Command("mpv", url, "--no-terminal")\<close> followed by
  \<open>Start\<close>, and \<open>kill h\<close> is \<open>Process.Kill\<close> on a handle (no error when there is no
  process to kill). The other commands are run by the runtime.
\<close>

fun perform :: "(string \<Rightarrow> error + handle) \<Rightarrow> (handle \<Rightarrow> error option) \<Rightarrow> cmd \<Rightarrow> msg option" where
  "perform start kill (startPlayback url) =
     Some (case start url of Inl e \<Rightarrow> playbackErrorMsg (Some e) | Inr h \<Rightarrow> startPlaybackMsg (Some h))"
| "perform start kill (stopPlayback p) =
     Some (case p of
             None \<Rightarrow> stopPlaybackMsg
           | Some h \<Rightarrow> (case kill h of Some e \<Rightarrow> playbackErrorMsg (Some e) | None \<Rightarrow> stopPlaybackMsg))"
| "perform start kill (errCmd e) = Some (errMsg (Some e))"
| "perform start kill c = None"

text \<open>
  The messages that the closures of main.go construct: a started player is never nil,
  and the error of an error message is never nil.
\<close>

fun wf_msg :: "msg \<Rightarrow> bool" where
  "wf_msg (startPlaybackMsg p) = (p \<noteq> None)"
| "wf_msg (playbackErrorMsg e) = (e \<noteq> None)"
| "wf_msg (errMsg e) = (e \<noteq> None)"
| "wf_msg m = True"

subsection \<open>getStreamURL\<close>

text \<open>
  \<^verbatim>\<open>re.FindStringSubmatch\<close> for \<^verbatim>\<open>File1=(.+)\<close>: the leftmost place where \<open>File1=\<close> is
  followed by at least one character other than a newline; the group is the longest run of
  such characters.
\<close>

fun findFile1 :: "string \<Rightarrow> string option" where
  "findFile1 [] = None"
| "findFile1 (c # cs) =
     (let g = takeWhile (\<lambda>x. x \<noteq> CHR 0x0A) (drop 6 (c # cs))
      in if take 6 (c # cs) = ''File1='' \<and> g \<noteq> [] then Some g else findFile1 cs)"

fun scanLines :: "string list \<Rightarrow> error + string" where
  "scanLines [] = Inl (ErrorString ''no stream URL found in PLS file'')"
| "scanLines (l # ls) = (case findFile1 l of Some u \<Rightarrow> Inr u | None \<Rightarrow> scanLines ls)"

text \<open>
  The network is a parameter: \<open>httpGet url\<close> is the error of \<open>http.Get\<close>, or the lines
  that the scanner reads from the body.
\<close>

definition getStreamURL :: "(string \<Rightarrow> error + string list) \<Rightarrow> string \<Rightarrow> error + string" where
  "getStreamURL httpGet plsURL =
     (case httpGet plsURL of Inl e \<Rightarrow> Inl e | Inr body \<Rightarrow> scanLines body)"

subsection \<open>Update\<close>

text \<open>An index out of range panics: the index and the length.\<close>

datatype panic = IndexOutOfRange int nat

text \<open>\<^verbatim>\<open>&s[i]\<close>\<close>

definition elem_addr :: "chan_slice \<Rightarrow> int \<Rightarrow> panic + chan_ptr" where
  "elem_addr s i =
     (if 0 \<le> i \<and> i < int (length (elems s)) then Inr (ElemPtr (arr s) (nat i))
      else Inl (IndexOutOfRange i (length (elems s))))"

text \<open>Lines 188 to 202: the rest of the \<open>enter\<close> case once the toggle-off test has failed.\<close>

definition Update_switch ::
  "(string \<Rightarrow> error + string list) \<Rightarrow> model \<Rightarrow> panic + (model \<times> cmd option)" where
  "Update_switch httpGet m =
     (let cmds = (if player m \<noteq> None then [stopPlayback (player m)] else [])
      in case elem_addr (channels m) (cursor m) of
           Inl pn \<Rightarrow> Inl pn
         | Inr p \<Rightarrow>
             (let m' = m\<lparr>selected := Some p\<rparr>
              in case getStreamURL httpGet (FastPLS (elems (channels m) ! nat (cursor m))) of
                   Inl e \<Rightarrow> Inr (m', Some (errCmd e))
                 | Inr streamURL \<Rightarrow> Inr (m', Some (teaSequence (cmds @ [startPlayback streamURL])))))"

text \<open>Lines 182 to 202: \<open>&&\<close> evaluates its right operand only when the player is playing.\<close>

definition Update_enter ::
  "(string \<Rightarrow> error + string list) \<Rightarrow> model \<Rightarrow> panic + (model \<times> cmd option)" where
  "Update_enter httpGet m =
     (if playerState m = playing then
        (case elem_addr (channels m) (cursor m) of
           Inl pn \<Rightarrow> Inl pn
         | Inr p \<Rightarrow>
             if selected m = Some p
             then Inr (m\<lparr>selected := None\<rparr>, Some (stopPlayback (player m)))
             else Update_switch httpGet m)
      else Update_switch httpGet m)"

definition Update_key ::
  "(string \<Rightarrow> error + string list) \<Rightarrow> model \<Rightarrow> string \<Rightarrow> panic + (model \<times> cmd option)" where
  "Update_key httpGet m k =
     (if k = ''ctrl+c'' \<or> k = ''q'' then
        (if player m \<noteq> None
         then Inr (m, Some (teaSequence [stopPlayback (player m), teaQuit]))
         else Inr (m, Some teaQuit))
      else if k = ''up'' \<or> k = ''k'' then
        Inr (if cursor m > 0 then m\<lparr>cursor := cursor m - 1\<rparr> else m, None)
      else if k = ''down'' \<or> k = ''j'' then
        Inr (if cursor m < int (length (elems (channels m))) - 1
             then m\<lparr>cursor := cursor m + 1\<rparr> else m, None)
      else if k = ''enter'' \<or> k = '' '' then Update_enter httpGet m
      else Inr (m, None))"

fun Update ::
  "(string \<Rightarrow> error + string list) \<Rightarrow> model \<Rightarrow> msg \<Rightarrow> panic + (model \<times> cmd option)" where
  "Update httpGet m (KeyMsg k) = Update_key httpGet m k"
| "Update httpGet m (startPlaybackMsg p) = Inr (m\<lparr>playerState := playing, player := p\<rparr>, None)"
| "Update httpGet m stopPlaybackMsg = Inr (m\<lparr>playerState := stopped, player := None\<rparr>, None)"
| "Update httpGet m (playbackErrorMsg e) =
     Inr (m\<lparr>err := e, playerState := stopped, player := None\<rparr>, None)"
| "Update httpGet m (channelsMsg cs) = Inr (m\<lparr>channels := cs, loading := False\<rparr>, None)"
| "Update httpGet m (errMsg e) = Inr (m\<lparr>err := e, loading := False\<rparr>, None)"
| "Update httpGet m otherMsg = Inr (m, None)"

text \<open>
  The loop of the runtime: one \<open>Update\<close> for each message, in order, collecting the
  commands returned; a panic ends the program.
\<close>

fun run_events ::
  "(string \<Rightarrow> error + string list) \<Rightarrow> model \<Rightarrow> msg list \<Rightarrow> panic + (model \<times> cmd option list)" where
  "run_events httpGet m [] = Inr (m, [])"
| "run_events httpGet m (e # es) =
     (case Update httpGet m e of
        Inl pn \<Rightarrow> Inl pn
      | Inr (m', c) \<Rightarrow>
          (case run_events httpGet m' es of
             Inl pn \<Rightarrow> Inl pn
           | Inr (m'', cs) \<Rightarrow> Inr (m'', c # cs)))"

subsection \<open>View\<close>

datatype style = titleStyle | selectedStyle | errorStyle

definition nl :: string where
  "nl = [CHR 0x0A]"

text \<open>The UTF-8 bytes of the musical note U+1F3B5, of the arrows U+2191 and U+2193, and of the bullet U+2022.\<close>

definition note_str :: string where
  "note_str = [CHR 0xF0, CHR 0x9F, CHR 0x8E, CHR 0xB5]"

definition footer :: string where
  "footer = nl @ ''('' @ [CHR 0xE2, CHR 0x86, CHR 0x91] @ ''/'' @ [CHR 0xE2, CHR 0x86, CHR 0x93]
     @ '') Navigate '' @ [CHR 0xE2, CHR 0x80, CHR 0xA2] @ '' (enter) Play/Stop ''
     @ [CHR 0xE2, CHR 0x80, CHR 0xA2] @ '' (q) Quit'' @ nl"

text \<open>\<^verbatim>\<open>%d\<close>\<close>

fun digit_chars :: "nat \<Rightarrow> string" where
  "digit_chars n =
     (if n < 10 then [char_of (48 + n)] else digit_chars (n div 10) @ [char_of (48 + n mod 10)])"

declare digit_chars.simps [simp del]

definition itoa :: "int \<Rightarrow> string" where
  "itoa i = (if i < 0 then ''-'' @ digit_chars (nat (- i)) else digit_chars (nat i))"

text \<open>
  \<^verbatim>\<open>%-*s\<close>: spaces on the right up to the width, which \<open>fmt\<close> counts in runes; the rune
  count of a byte string (\<open>utf8.RuneCountInString\<close>) is a parameter.
\<close>

definition padRight :: "(string \<Rightarrow> nat) \<Rightarrow> nat \<Rightarrow> string \<Rightarrow> string" where
  "padRight runeCount w s = s @ replicate (w - runeCount s) (CHR '' '')"

text \<open>The truncation of a column: lengths and the cut are in bytes.\<close>

definition truncate_col :: "nat \<Rightarrow> string \<Rightarrow> string" where
  "truncate_col w s = (if length s > w - 3 then take (w - 3) s @ ''...'' else s)"

text \<open>One pass of the loop over the channels; \<open>render\<close> is lipgloss's \<open>Style.Render\<close>.\<close>

definition viewRow ::
  "(style \<Rightarrow> string \<Rightarrow> string) \<Rightarrow> (string \<Rightarrow> nat) \<Rightarrow> int \<Rightarrow> nat \<Rightarrow> Channel \<Rightarrow> string" where
  "viewRow render runeCount cur i channel =
     (let line = (if int i = cur then ''> '' else ''  '')
                 @ padRight runeCount titleWidth (truncate_col titleWidth (Title channel))
                 @ '' ''
                 @ padRight runeCount genreWidth (truncate_col genreWidth (Genre channel))
                 @ '' ['' @ itoa (Listeners channel) @ '']'' @ nl
      in if int i = cur then render selectedStyle line else line)"

fun viewRows ::
  "(style \<Rightarrow> string \<Rightarrow> string) \<Rightarrow> (string \<Rightarrow> nat) \<Rightarrow> int \<Rightarrow> nat \<Rightarrow> Channel list \<Rightarrow> string" where
  "viewRows render runeCount cur i [] = []"
| "viewRows render runeCount cur i (channel # rest) =
     viewRow render runeCount cur i channel @ viewRows render runeCount cur (Suc i) rest"

text \<open>
  \<open>View\<close> reads the selected channel through its pointer; \<open>heap\<close> is the memory, which
  gives the channel at an address.
\<close>

definition View ::
  "(style \<Rightarrow> string \<Rightarrow> string) \<Rightarrow> (string \<Rightarrow> nat) \<Rightarrow> (chan_ptr \<Rightarrow> Channel) \<Rightarrow> model \<Rightarrow> string" where
  "View render runeCount heap m =
     (if loading m then ''Loading channels...'' @ nl
      else case err m of
        Some e \<Rightarrow> render errorStyle (''Error: '' @ error_string e @ nl)
      | None \<Rightarrow>
          render titleStyle (note_str @ '' SomaFM Channels'' @ nl @ nl)
          @ viewRows render runeCount (cursor m) 0 (elems (channels m))
          @ (if playerState m = playing
             then (case selected m of
                     Some p \<Rightarrow> nl @ render titleStyle (''Now Playing: '' @ Title (heap p))
                   | None \<Rightarrow> [])
             else [])
          @ footer)"

subsection \<open>Concrete inputs\<close>

text \<open>
  A catalog of two channels in the array at address 1, a network on which every playlist
  resolves, a network on which the playlist of the second channel cannot be fetched, and
  a state in which the first channel is playing in process 7.
\<close>

definition ex_chan0 :: Channel where
  "ex_chan0 = \<lparr>ID = ''groovesalad'', Title = ''Groove Salad'', Description = ''Ambient beats'',
     Genre = ''ambient'', Image' = ''gs.png'', DJ = ''Rusty'', Listeners = 1200,
     FastPLS = ''https://somafm.com/groovesalad.pls''\<rparr>"

definition ex_chan1 :: Channel where
  "ex_chan1 = \<lparr>ID = ''dronezone'', Title = ''Drone Zone'', Description = ''Atmospheric textures'',
     Genre = ''ambient|space'', Image' = ''dz.png'', DJ = ''Rusty'', Listeners = 800,
     FastPLS = ''https://somafm.com/dronezone.pls''\<rparr>"

definition ex_catalog :: chan_slice where
  "ex_catalog = \<lparr>arr = 1, elems = [ex_chan0, ex_chan1]\<rparr>"

definition ex_http_ok :: "string \<Rightarrow> error + string list" where
  "ex_http_ok u = Inr [''[playlist]'', ''File1=http://ice.somafm.com/a'', ''Title1=SomaFM'']"

definition ex_http_fail1 :: "string \<Rightarrow> error + string list" where
  "ex_http_fail1 u =
     (if u = ''https://somafm.com/dronezone.pls'' then Inl (ErrorString ''connection refused'')
      else Inr [''[playlist]'', ''File1=http://ice.somafm.com/a'', ''Title1=SomaFM''])"

definition ex_playing0 :: model where
  "ex_playing0 = \<lparr>channels = ex_catalog, cursor = 0, selected = Some (ElemPtr 1 0), err = None,
     loading = False, playerState = playing, player = Some 7\<rparr>"

definition ex_render :: "style \<Rightarrow> string \<Rightarrow> string" where
  "ex_render st s = s"

definition ex_heap :: "chan_ptr \<Rightarrow> Channel" where
  "ex_heap p = (case p of ElemPtr a i \<Rightarrow> if i = 0 then ex_chan0 else ex_chan1)"

section \<open>Properties of the control loop\<close>

subsection \<open>What a key changes\<close>

lemma Update_switch_frame:
  assumes "Update_switch httpGet m = Inr (m', c)"
  shows "\<exists>p. m' = m\<lparr>selected := Some p\<rparr>"
  using assms unfolding Update_switch_def Let_def
  by (auto split: sum.splits)

lemma Update_enter_frame:
  assumes "Update_enter httpGet m = Inr (m', c)"
  shows "\<exists>s. m' = m\<lparr>selected := s\<rparr>"
proof (cases "playerState m = playing \<and> (\<exists>p. elem_addr (channels m) (cursor m) = Inr p \<and> selected m = Some p)")
  case True
  with assms have "m' = m\<lparr>selected := None\<rparr>"
    unfolding Update_enter_def by auto
  then show ?thesis by blast
next
  case False
  with assms have "Update_switch httpGet m = Inr (m', c)"
    unfolding Update_enter_def by (auto split: if_splits sum.splits)
  then show ?thesis using Update_switch_frame by blast
qed

lemma Update_key_frame:
  assumes "Update_key httpGet m k = Inr (m', c)"
  shows "\<exists>s i. m' = m\<lparr>cursor := i, selected := s\<rparr>"
proof -
  consider (quit) "k = ''ctrl+c'' \<or> k = ''q''"
    | (up) "\<not> (k = ''ctrl+c'' \<or> k = ''q'')" "k = ''up'' \<or> k = ''k''"
    | (down) "\<not> (k = ''ctrl+c'' \<or> k = ''q'')" "\<not> (k = ''up'' \<or> k = ''k'')" "k = ''down'' \<or> k = ''j''"
    | (enter) "\<not> (k = ''ctrl+c'' \<or> k = ''q'')" "\<not> (k = ''up'' \<or> k = ''k'')" "\<not> (k = ''down'' \<or> k = ''j'')"
        "k = ''enter'' \<or> k = '' ''"
    | (other) "\<not> (k = ''ctrl+c'' \<or> k = ''q'')" "\<not> (k = ''up'' \<or> k = ''k'')" "\<not> (k = ''down'' \<or> k = ''j'')"
        "\<not> (k = ''enter'' \<or> k = '' '')"
    by blast
  then show ?thesis
  proof cases
    case quit
    then have "m' = m" using assms by (simp add: Update_key_def split: if_splits)
    then have "m' = m\<lparr>cursor := cursor m, selected := selected m\<rparr>" by simp
    then show ?thesis by blast
  next
    case up
    then have "m' = (if cursor m > 0 then m\<lparr>cursor := cursor m - 1\<rparr> else m)"
      using assms by (simp add: Update_key_def)
    then have "m' = m\<lparr>cursor := (if cursor m > 0 then cursor m - 1 else cursor m), selected := selected m\<rparr>"
      by simp
    then show ?thesis by blast
  next
    case down
    then have "m' = (if cursor m < int (length (elems (channels m))) - 1
             then m\<lparr>cursor := cursor m + 1\<rparr> else m)"
      using assms by (simp add: Update_key_def)
    then have "m' = m\<lparr>cursor := (if cursor m < int (length (elems (channels m))) - 1 then cursor m + 1 else cursor m), selected := selected m\<rparr>"
      by simp
    then show ?thesis by blast
  next
    case enter
    then have "Update_enter httpGet m = Inr (m', c)"
      using assms by (simp add: Update_key_def)
    then obtain s where "m' = m\<lparr>selected := s\<rparr>" using Update_enter_frame by blast
    then have "m' = m\<lparr>cursor := cursor m, selected := s\<rparr>" by simp
    then show ?thesis by blast
  next
    case other
    then have "m' = m" using assms by (simp add: Update_key_def)
    then have "m' = m\<lparr>cursor := cursor m, selected := selected m\<rparr>" by simp
    then show ?thesis by blast
  qed
qed

subsection \<open>Invariants of the state\<close>

text \<open>Every message that a closure of main.go delivers is one the program constructs.\<close>

lemma perform_wf_msg:
  assumes "perform start kill c = Some e"
  shows "wf_msg e"
  using assms by (cases c) (auto split: sum.splits option.splits)

lemma Update_key_keeps_player:
  assumes "Update_key httpGet m k = Inr (m', c)"
  shows "player m' = player m" and "playerState m' = playerState m" and "err m' = err m"
    and "loading m' = loading m" and "channels m' = channels m"
proof -
  obtain s i where "m' = m\<lparr>cursor := i, selected := s\<rparr>"
    using Update_key_frame [OF assms] by blast
  then show "player m' = player m" and "playerState m' = playerState m" and "err m' = err m"
    and "loading m' = loading m" and "channels m' = channels m"
    by simp_all
qed

lemma Update_keeps_handle_iff_playing:
  assumes "wf_msg e" and "Update httpGet m e = Inr (m', c)"
    and "(player m \<noteq> None) = (playerState m = playing)"
  shows "(player m' \<noteq> None) = (playerState m' = playing)"
proof (cases e)
  case (KeyMsg k)
  then have "Update_key httpGet m k = Inr (m', c)" using assms(2) by simp
  then have "player m' = player m" and "playerState m' = playerState m"
    by (rule Update_key_keeps_player)+
  then show ?thesis using assms(3) by simp
next
  case (startPlaybackMsg p)
  then show ?thesis using assms(1,2) by auto
next
  case stopPlaybackMsg
  then show ?thesis using assms(2) by auto
next
  case (playbackErrorMsg x)
  then show ?thesis using assms(2) by auto
next
  case (channelsMsg cs)
  then show ?thesis using assms(2,3) by auto
next
  case (errMsg x)
  then show ?thesis using assms(2,3) by auto
next
  case otherMsg
  then show ?thesis using assms(2,3) by auto
qed

lemma run_events_keeps_handle_iff_playing:
  assumes "list_all wf_msg es" and "run_events httpGet m es = Inr (m', cs)"
    and "(player m \<noteq> None) = (playerState m = playing)"
  shows "(player m' \<noteq> None) = (playerState m' = playing)"
  using assms
proof (induction es arbitrary: m cs)
  case Nil
  then show ?case by simp
next
  case (Cons e es)
  from Cons.prems(2) obtain m1 c1 cs1 where
    step: "Update httpGet m e = Inr (m1, c1)" and rest: "run_events httpGet m1 es = Inr (m', cs1)"
    by (auto split: sum.splits prod.splits)
  from Cons.prems(1) have wf: "wf_msg e" and wfs: "list_all wf_msg es" by simp_all
  have "(player m1 \<noteq> None) = (playerState m1 = playing)"
    using Update_keeps_handle_iff_playing [OF wf step Cons.prems(3)] .
  then show ?case using Cons.IH [OF wfs rest] by blast
qed

lemma run_to_playing0:
  "run_events ex_http_ok initialModel
     [channelsMsg ex_catalog, KeyMsg ''enter'', startPlaybackMsg (Some 7)]
   = Inr (ex_playing0, [None, Some (teaSequence [startPlayback ''http://ice.somafm.com/a'']), None])"
  by (simp add: initialModel_def nil_slice_def ex_catalog_def ex_playing0_def ex_http_ok_def
      Update_key_def Update_enter_def Update_switch_def elem_addr_def getStreamURL_def
      ex_chan0_def ex_chan1_def)

text \<open>
  Claim C1. After every finite sequence of events handled from the initial state, the
  player handle is present exactly when the phase is \<open>playing\<close>. The events are those
  the program constructs: a \<open>startPlaybackMsg\<close> carries the non-nil handle of the process
  that \<open>startPlayback\<close> started. Since every prefix of a sequence is a sequence, the
  property holds after each event; the last three conjuncts give the state after
  \<open>startPlaybackMsg\<close>, \<open>stopPlaybackMsg\<close> and \<open>playbackErrorMsg\<close> from any state, in which
  handle and phase are set together.
\<close>

theorem handle_present_iff_playing:
  assumes "list_all wf_msg es" and "run_events httpGet initialModel es = Inr (m, cs)"
  shows "((player m \<noteq> None) = (playerState m = playing))
    \<and> Update httpGet m0 (startPlaybackMsg (Some h)) = Inr (m0\<lparr>playerState := playing, player := Some h\<rparr>, None)
    \<and> Update httpGet m0 stopPlaybackMsg = Inr (m0\<lparr>playerState := stopped, player := None\<rparr>, None)
    \<and> Update httpGet m0 (playbackErrorMsg e) = Inr (m0\<lparr>err := e, playerState := stopped, player := None\<rparr>, None)"
proof -
  have "(player initialModel \<noteq> None) = (playerState initialModel = playing)"
    by (simp add: initialModel_def)
  then have "(player m \<noteq> None) = (playerState m = playing)"
    using run_events_keeps_handle_iff_playing [OF assms] by blast
  then show ?thesis by simp
qed

text \<open>The hypotheses of C1 hold for the run that loads the catalog and starts the first channel.\<close>

theorem handle_present_iff_playing_witness:
  "list_all wf_msg [channelsMsg ex_catalog, KeyMsg ''enter'', startPlaybackMsg (Some 7)]
   \<and> run_events ex_http_ok initialModel
        [channelsMsg ex_catalog, KeyMsg ''enter'', startPlaybackMsg (Some 7)]
      = Inr (ex_playing0, [None, Some (teaSequence [startPlayback ''http://ice.somafm.com/a'']), None])
   \<and> player ex_playing0 \<noteq> None \<and> playerState ex_playing0 = playing"
proof -
  have wf: "list_all wf_msg [channelsMsg ex_catalog, KeyMsg ''enter'', startPlaybackMsg (Some 7)]"
    by simp
  have "player ex_playing0 \<noteq> None" by (simp add: ex_playing0_def)
  then show ?thesis
    using wf run_to_playing0 handle_present_iff_playing [OF wf run_to_playing0] by simp
qed

text \<open>
  Claim C10. Handling \<open>startPlaybackMsg\<close>, \<open>stopPlaybackMsg\<close> or \<open>playbackErrorMsg\<close>
  returns no command and leaves the channel sequence, the cursor and the loading flag as
  they were (the selection too, and the last error except on \<open>playbackErrorMsg\<close>).
\<close>

theorem lifecycle_events_frame:
  "(\<exists>m'. Update httpGet m (startPlaybackMsg p) = Inr (m', None)
      \<and> channels m' = channels m \<and> cursor m' = cursor m \<and> loading m' = loading m
      \<and> selected m' = selected m \<and> err m' = err m)
   \<and> (\<exists>m'. Update httpGet m stopPlaybackMsg = Inr (m', None)
      \<and> channels m' = channels m \<and> cursor m' = cursor m \<and> loading m' = loading m
      \<and> selected m' = selected m \<and> err m' = err m)
   \<and> (\<exists>m'. Update httpGet m (playbackErrorMsg e) = Inr (m', None)
      \<and> channels m' = channels m \<and> cursor m' = cursor m \<and> loading m' = loading m
      \<and> selected m' = selected m)"
  by simp

text \<open>
  Claim C4, as the code has it. Handling \<open>stopPlaybackMsg\<close> or \<open>playbackErrorMsg\<close> sets
  the phase to \<open>stopped\<close> and clears the player handle, and leaves the selection as it
  was: a selection can be present while the phase is \<open>stopped\<close>.
\<close>

theorem stop_and_failure_keep_selection:
  "Update httpGet m stopPlaybackMsg = Inr (m\<lparr>playerState := stopped, player := None\<rparr>, None)
   \<and> Update httpGet m (playbackErrorMsg e)
       = Inr (m\<lparr>err := e, playerState := stopped, player := None\<rparr>, None)
   \<and> selected (m\<lparr>playerState := stopped, player := None\<rparr>) = selected m
   \<and> selected (m\<lparr>err := e, playerState := stopped, player := None\<rparr>) = selected m"
  by simp

text \<open>
  Claim C4 fails as stated: after the catalog has loaded, the first channel has been
  activated and started, and its player has reported that it stopped, the selection is
  still the first channel while the phase is \<open>stopped\<close>.
\<close>

theorem selection_present_while_stopped:
  "run_events ex_http_ok initialModel
     [channelsMsg ex_catalog, KeyMsg ''enter'', startPlaybackMsg (Some 7), stopPlaybackMsg]
   = Inr (ex_playing0\<lparr>playerState := stopped, player := None\<rparr>,
          [None, Some (teaSequence [startPlayback ''http://ice.somafm.com/a'']), None, None])
   \<and> selected (ex_playing0\<lparr>playerState := stopped, player := None\<rparr>) = Some (ElemPtr 1 0)
   \<and> playerState (ex_playing0\<lparr>playerState := stopped, player := None\<rparr>) \<noteq> playing"
  by (simp add: initialModel_def nil_slice_def ex_catalog_def ex_playing0_def ex_http_ok_def
      Update_key_def Update_enter_def Update_switch_def elem_addr_def getStreamURL_def
      ex_chan0_def ex_chan1_def)

text \<open>
  Claim C8, as the code has it. No event clears the last error: once present it stays
  present after every event the program constructs; only \<open>errMsg\<close> and
  \<open>playbackErrorMsg\<close> change it, by overwriting it with their own error, and every other
  event, the successful completions included, leaves it as it was.
\<close>

theorem error_never_cleared:
  assumes "wf_msg e" and "Update httpGet m e = Inr (m', c)" and "err m \<noteq> None"
  shows "err m' \<noteq> None \<and> ((\<forall>x. e \<noteq> errMsg x \<and> e \<noteq> playbackErrorMsg x) \<longrightarrow> err m' = err m)"
proof (cases e)
  case (KeyMsg k)
  then have "Update_key httpGet m k = Inr (m', c)" using assms(2) by simp
  then have "err m' = err m" by (rule Update_key_keeps_player)
  then show ?thesis using assms(3) by simp
next
  case (startPlaybackMsg p)
  then show ?thesis using assms by auto
next
  case stopPlaybackMsg
  then show ?thesis using assms by auto
next
  case (playbackErrorMsg x)
  then show ?thesis using assms by auto
next
  case (channelsMsg cs)
  then show ?thesis using assms by auto
next
  case (errMsg x)
  then show ?thesis using assms by auto
next
  case otherMsg
  then show ?thesis using assms by auto
qed

text \<open>The hypotheses of the amended C8 hold for a successful start after a failed one.\<close>

theorem error_never_cleared_witness:
  "wf_msg (startPlaybackMsg (Some 7))
   \<and> Update ex_http_ok (ex_playing0\<lparr>err := Some (ErrorString ''boom''), playerState := stopped, player := None\<rparr>)
        (startPlaybackMsg (Some 7))
      = Inr (ex_playing0\<lparr>err := Some (ErrorString ''boom'')\<rparr>, None)
   \<and> err (ex_playing0\<lparr>err := Some (ErrorString ''boom''), playerState := stopped, player := None\<rparr>) \<noteq> None
   \<and> err (ex_playing0\<lparr>err := Some (ErrorString ''boom'')\<rparr>) = Some (ErrorString ''boom'')"
proof -
  have u: "Update ex_http_ok (ex_playing0\<lparr>err := Some (ErrorString ''boom''), playerState := stopped, player := None\<rparr>)
        (startPlaybackMsg (Some 7))
      = Inr (ex_playing0\<lparr>err := Some (ErrorString ''boom'')\<rparr>, None)"
    by (simp add: ex_playing0_def)
  have w: "wf_msg (startPlaybackMsg (Some 7))" by simp
  have n: "err (ex_playing0\<lparr>err := Some (ErrorString ''boom''), playerState := stopped, player := None\<rparr>) \<noteq> None"
    by simp
  show ?thesis using w u n error_never_cleared [OF w u n] by simp
qed

text \<open>
  Claim C8 fails as stated: a playback failure followed by a successful start of the same
  channel leaves the error of the failure in the state.
\<close>

theorem error_survives_successful_start:
  "run_events ex_http_ok initialModel
     [channelsMsg ex_catalog, KeyMsg ''enter'', playbackErrorMsg (Some (ErrorString ''mpv not found'')),
      KeyMsg ''enter'', startPlaybackMsg (Some 7)]
   = Inr (ex_playing0\<lparr>err := Some (ErrorString ''mpv not found'')\<rparr>,
          [None, Some (teaSequence [startPlayback ''http://ice.somafm.com/a'']), None,
           Some (teaSequence [startPlayback ''http://ice.somafm.com/a'']), None])
   \<and> err (ex_playing0\<lparr>err := Some (ErrorString ''mpv not found'')\<rparr>) = Some (ErrorString ''mpv not found'')"
  by (simp add: initialModel_def nil_slice_def ex_catalog_def ex_playing0_def ex_http_ok_def
      Update_key_def Update_enter_def Update_switch_def elem_addr_def getStreamURL_def
      ex_chan0_def ex_chan1_def)

subsection \<open>The activation key\<close>

lemma Update_enter_key:
  assumes "k = ''enter'' \<or> k = '' ''"
  shows "Update httpGet m (KeyMsg k) = Update_enter httpGet m"
  using assms by (auto simp: Update_key_def)

text \<open>
  Claim C2. In a state that is playing in process \<open>h\<close>, with the cursor on a channel
  \<open>b\<close> that is not the selected one and whose stream URL resolves to \<open>url\<close>, the
  activation key selects \<open>b\<close> and returns the sequence of exactly two commands: the stop
  of \<open>h\<close> first, the start of \<open>url\<close> second.
\<close>

theorem switch_stops_before_start:
  assumes "k = ''enter'' \<or> k = '' ''"
    and "playerState m = playing" and "player m = Some h"
    and "elem_addr (channels m) (cursor m) = Inr b" and "selected m \<noteq> Some b"
    and "getStreamURL httpGet (FastPLS (elems (channels m) ! nat (cursor m))) = Inr url"
  shows "Update httpGet m (KeyMsg k)
    = Inr (m\<lparr>selected := Some b\<rparr>, Some (teaSequence [stopPlayback (Some h), startPlayback url]))"
proof -
  have "Update_switch httpGet m
    = Inr (m\<lparr>selected := Some b\<rparr>, Some (teaSequence [stopPlayback (Some h), startPlayback url]))"
    using assms(3,4,6) by (simp add: Update_switch_def)
  moreover have "Update_enter httpGet m = Update_switch httpGet m"
    using assms(2,4,5) by (simp add: Update_enter_def)
  ultimately show ?thesis using Update_enter_key [OF assms(1)] by simp
qed

lemma ex_resolve_ok:
  "getStreamURL ex_http_ok u = Inr ''http://ice.somafm.com/a''"
  by (simp add: getStreamURL_def ex_http_ok_def)

text \<open>The hypotheses of C2 hold when the first channel plays and the cursor is on the second.\<close>

theorem switch_stops_before_start_witness:
  "playerState (ex_playing0\<lparr>cursor := 1\<rparr>) = playing
   \<and> player (ex_playing0\<lparr>cursor := 1\<rparr>) = Some 7
   \<and> elem_addr (channels (ex_playing0\<lparr>cursor := 1\<rparr>)) (cursor (ex_playing0\<lparr>cursor := 1\<rparr>)) = Inr (ElemPtr 1 1)
   \<and> selected (ex_playing0\<lparr>cursor := 1\<rparr>) \<noteq> Some (ElemPtr 1 1)
   \<and> Update ex_http_ok (ex_playing0\<lparr>cursor := 1\<rparr>) (KeyMsg ''enter'')
      = Inr (ex_playing0\<lparr>cursor := 1, selected := Some (ElemPtr 1 1)\<rparr>,
             Some (teaSequence [stopPlayback (Some 7), startPlayback ''http://ice.somafm.com/a'']))"
proof -
  have a: "playerState (ex_playing0\<lparr>cursor := 1\<rparr>) = playing"
    and b: "player (ex_playing0\<lparr>cursor := 1\<rparr>) = Some 7"
    and d: "selected (ex_playing0\<lparr>cursor := 1\<rparr>) \<noteq> Some (ElemPtr 1 1)"
    by (simp_all add: ex_playing0_def)
  have c: "elem_addr (channels (ex_playing0\<lparr>cursor := 1\<rparr>)) (cursor (ex_playing0\<lparr>cursor := 1\<rparr>))
      = Inr (ElemPtr 1 1)"
    by (simp add: ex_playing0_def ex_catalog_def elem_addr_def)
  have e: "getStreamURL ex_http_ok
      (FastPLS (elems (channels (ex_playing0\<lparr>cursor := 1\<rparr>)) ! nat (cursor (ex_playing0\<lparr>cursor := 1\<rparr>))))
      = Inr ''http://ice.somafm.com/a''"
    by (rule ex_resolve_ok)
  have k: "''enter'' = ''enter'' \<or> ''enter'' = '' ''" by simp
  show ?thesis
    using a b c d switch_stops_before_start [OF k a b c d e] by simp
qed

text \<open>
  Claim C5. In a state that is playing and whose selection is the address of the channel
  at the cursor, the activation key clears the selection and returns the stop of the
  current player alone, with no start; nothing else of the state changes, so the channel
  sequence and the cursor are as before.
\<close>

theorem toggle_off:
  assumes "k = ''enter'' \<or> k = '' ''"
    and "playerState m = playing"
    and "elem_addr (channels m) (cursor m) = Inr p" and "selected m = Some p"
  shows "Update httpGet m (KeyMsg k) = Inr (m\<lparr>selected := None\<rparr>, Some (stopPlayback (player m)))
    \<and> channels (m\<lparr>selected := None\<rparr>) = channels m
    \<and> cursor (m\<lparr>selected := None\<rparr>) = cursor m"
proof -
  have "Update_enter httpGet m = Inr (m\<lparr>selected := None\<rparr>, Some (stopPlayback (player m)))"
    using assms(2,3,4) by (simp add: Update_enter_def)
  then show ?thesis using Update_enter_key [OF assms(1)] by simp
qed

text \<open>The hypotheses of C5 hold when the first channel plays and the cursor is on it.\<close>

theorem toggle_off_witness:
  "playerState ex_playing0 = playing
   \<and> elem_addr (channels ex_playing0) (cursor ex_playing0) = Inr (ElemPtr 1 0)
   \<and> selected ex_playing0 = Some (ElemPtr 1 0)
   \<and> Update ex_http_ok ex_playing0 (KeyMsg '' '')
      = Inr (ex_playing0\<lparr>selected := None\<rparr>, Some (stopPlayback (Some 7)))"
proof -
  have a: "playerState ex_playing0 = playing"
    and c: "selected ex_playing0 = Some (ElemPtr 1 0)"
    and d: "player ex_playing0 = Some 7"
    by (simp_all add: ex_playing0_def)
  have b: "elem_addr (channels ex_playing0) (cursor ex_playing0) = Inr (ElemPtr 1 0)"
    by (simp add: ex_playing0_def ex_catalog_def elem_addr_def)
  have k: "'' '' = ''enter'' \<or> '' '' = '' ''" by simp
  show ?thesis using a b c d toggle_off [OF k a b c, of ex_http_ok] by simp
qed

text \<open>
  Claim C3 fails on the code. The first channel plays in process 7, the cursor goes down
  and the activation key is pressed on the second channel, whose playlist cannot be
  fetched. \<open>Update\<close> selects the second channel and returns only the command that
  reports the error: the stop that it had put in \<open>cmds\<close> is dropped by the early return.
  When that command has completed, the state still is \<open>playing\<close> in process 7, with the
  second channel selected. No start is scheduled and the error is recorded, as claimed.
\<close>

theorem failed_resolution_drops_stop:
  "run_events ex_http_fail1 ex_playing0 [KeyMsg ''down'', KeyMsg ''enter'']
   = Inr (ex_playing0\<lparr>cursor := 1, selected := Some (ElemPtr 1 1)\<rparr>,
          [None, Some (errCmd (ErrorString ''connection refused''))])
   \<and> perform start kill (errCmd (ErrorString ''connection refused''))
      = Some (errMsg (Some (ErrorString ''connection refused'')))
   \<and> Update ex_http_fail1 (ex_playing0\<lparr>cursor := 1, selected := Some (ElemPtr 1 1)\<rparr>)
        (errMsg (Some (ErrorString ''connection refused'')))
      = Inr (ex_playing0\<lparr>cursor := 1, selected := Some (ElemPtr 1 1),
               err := Some (ErrorString ''connection refused'')\<rparr>, None)
   \<and> playerState (ex_playing0\<lparr>cursor := 1, selected := Some (ElemPtr 1 1),
        err := Some (ErrorString ''connection refused'')\<rparr>) = playing
   \<and> player (ex_playing0\<lparr>cursor := 1, selected := Some (ElemPtr 1 1),
        err := Some (ErrorString ''connection refused'')\<rparr>) = Some 7"
  by (simp add: ex_catalog_def ex_playing0_def ex_http_fail1_def
      Update_key_def Update_enter_def Update_switch_def elem_addr_def getStreamURL_def
      ex_chan0_def ex_chan1_def)

text \<open>
  Claim C9 fails on the code. In the initial state, whose channel sequence is empty, the
  activation key makes \<open>Update\<close> take the address of \<open>m.channels[0]\<close>, which panics:
  there is no state and no command.
\<close>

theorem activate_on_empty_catalog_panics:
  "Update httpGet initialModel (KeyMsg ''enter'') = Inl (IndexOutOfRange 0 0)
   \<and> Update httpGet initialModel (KeyMsg '' '') = Inl (IndexOutOfRange 0 0)"
  by (simp add: initialModel_def nil_slice_def Update_key_def Update_enter_def Update_switch_def
      elem_addr_def)

subsection \<open>The cursor keys\<close>

lemma cursor_key_step:
  assumes "e \<in> {KeyMsg ''up'', KeyMsg ''k'', KeyMsg ''down'', KeyMsg ''j''}"
    and "0 \<le> cursor m" and "cursor m \<le> max (int (length (elems (channels m))) - 1) 0"
  shows "\<exists>i. Update httpGet m e = Inr (m\<lparr>cursor := i\<rparr>, None)
    \<and> 0 \<le> i \<and> i \<le> max (int (length (elems (channels m))) - 1) 0
    \<and> (elems (channels m) = [] \<longrightarrow> i = cursor m)"
proof -
  consider (up) "e = KeyMsg ''up'' \<or> e = KeyMsg ''k''" | (down) "e = KeyMsg ''down'' \<or> e = KeyMsg ''j''"
    using assms(1) by blast
  then show ?thesis
  proof cases
    case up
    then have u: "Update httpGet m e
        = Inr (if cursor m > 0 then m\<lparr>cursor := cursor m - 1\<rparr> else m, None)"
      by (auto simp: Update_key_def)
    show ?thesis
    proof (cases "cursor m > 0")
      case True
      then have "Update httpGet m e = Inr (m\<lparr>cursor := cursor m - 1\<rparr>, None)" using u by simp
      moreover have "0 \<le> cursor m - 1" using True by simp
      moreover have "cursor m - 1 \<le> max (int (length (elems (channels m))) - 1) 0"
        using assms(3) by simp
      moreover have "elems (channels m) \<noteq> []" using True assms(3) by auto
      ultimately show ?thesis by blast
    next
      case False
      then have "Update httpGet m e = Inr (m\<lparr>cursor := cursor m\<rparr>, None)" using u by simp
      then show ?thesis using assms(2,3) by blast
    qed
  next
    case down
    then have d: "Update httpGet m e
        = Inr (if cursor m < int (length (elems (channels m))) - 1
               then m\<lparr>cursor := cursor m + 1\<rparr> else m, None)"
      by (auto simp: Update_key_def)
    show ?thesis
    proof (cases "cursor m < int (length (elems (channels m))) - 1")
      case True
      then have "Update httpGet m e = Inr (m\<lparr>cursor := cursor m + 1\<rparr>, None)" using d by simp
      moreover have "0 \<le> cursor m + 1" using assms(2) by simp
      moreover have "cursor m + 1 \<le> max (int (length (elems (channels m))) - 1) 0"
        using True by simp
      moreover have "elems (channels m) \<noteq> []" using True assms(2) by auto
      ultimately show ?thesis by blast
    next
      case False
      then have "Update httpGet m e = Inr (m\<lparr>cursor := cursor m\<rparr>, None)" using d by simp
      then show ?thesis using assms(2,3) by blast
    qed
  qed
qed

lemma cursor_keys_run:
  assumes "set es \<subseteq> {KeyMsg ''up'', KeyMsg ''k'', KeyMsg ''down'', KeyMsg ''j''}"
    and "0 \<le> cursor m" and "cursor m \<le> max (int (length (elems (channels m))) - 1) 0"
  shows "\<exists>i. run_events httpGet m es = Inr (m\<lparr>cursor := i\<rparr>, replicate (length es) None)
    \<and> 0 \<le> i \<and> i \<le> max (int (length (elems (channels m))) - 1) 0
    \<and> (elems (channels m) = [] \<longrightarrow> i = cursor m)"
  using assms
proof (induction es arbitrary: m)
  case Nil
  have "run_events httpGet m [] = Inr (m\<lparr>cursor := cursor m\<rparr>, replicate (length []) None)"
    by simp
  then show ?case using Nil.prems(2,3) by blast
next
  case (Cons e es)
  have e: "e \<in> {KeyMsg ''up'', KeyMsg ''k'', KeyMsg ''down'', KeyMsg ''j''}"
    and es: "set es \<subseteq> {KeyMsg ''up'', KeyMsg ''k'', KeyMsg ''down'', KeyMsg ''j''}"
    using Cons.prems(1) by auto
  obtain i where step: "Update httpGet m e = Inr (m\<lparr>cursor := i\<rparr>, None)"
    and lo: "0 \<le> i" and hi: "i \<le> max (int (length (elems (channels m))) - 1) 0"
    and emp: "elems (channels m) = [] \<longrightarrow> i = cursor m"
    using cursor_key_step [OF e Cons.prems(2,3)] by blast
  let ?m1 = "m\<lparr>cursor := i\<rparr>"
  have lo1: "0 \<le> cursor ?m1" using lo by simp
  have hi1: "cursor ?m1 \<le> max (int (length (elems (channels ?m1))) - 1) 0" using hi by simp
  obtain j where rest: "run_events httpGet ?m1 es = Inr (?m1\<lparr>cursor := j\<rparr>, replicate (length es) None)"
    and lo2: "0 \<le> j" and hi2: "j \<le> max (int (length (elems (channels ?m1))) - 1) 0"
    and emp2: "elems (channels ?m1) = [] \<longrightarrow> j = cursor ?m1"
    using Cons.IH [OF es lo1 hi1] by blast
  have "run_events httpGet m (e # es) = Inr (m\<lparr>cursor := j\<rparr>, replicate (length (e # es)) None)"
    using step rest by simp
  moreover have "j \<le> max (int (length (elems (channels m))) - 1) 0" using hi2 by simp
  moreover have "elems (channels m) = [] \<longrightarrow> j = cursor m" using emp emp2 by simp
  ultimately show ?case using lo2 by blast
qed

text \<open>
  Claim C6. From a state whose cursor is in \<open>[0, max (N - 1) 0]\<close>, where \<open>N\<close> is the
  length of the channel sequence, every finite sequence of the keys \<open>up\<close>, \<open>k\<close>, \<open>down\<close>
  and \<open>j\<close> is handled without a panic, returns no command at any step, changes nothing
  but the cursor and leaves the cursor in that interval; when \<open>N = 0\<close> the state is
  unchanged. Every prefix of such a sequence is such a sequence, so this holds after each
  event.
\<close>

theorem cursor_stays_clamped:
  assumes "set es \<subseteq> {KeyMsg ''up'', KeyMsg ''k'', KeyMsg ''down'', KeyMsg ''j''}"
    and "0 \<le> cursor m" and "cursor m \<le> max (int (length (elems (channels m))) - 1) 0"
  shows "\<exists>m'. run_events httpGet m es = Inr (m', replicate (length es) None)
    \<and> m' = m\<lparr>cursor := cursor m'\<rparr>
    \<and> 0 \<le> cursor m' \<and> cursor m' \<le> max (int (length (elems (channels m))) - 1) 0
    \<and> (elems (channels m) = [] \<longrightarrow> m' = m)"
proof -
  obtain i where run: "run_events httpGet m es = Inr (m\<lparr>cursor := i\<rparr>, replicate (length es) None)"
    and lo: "0 \<le> i" and hi: "i \<le> max (int (length (elems (channels m))) - 1) 0"
    and emp: "elems (channels m) = [] \<longrightarrow> i = cursor m"
    using cursor_keys_run [OF assms] by blast
  show ?thesis
  proof (intro exI conjI)
    show "run_events httpGet m es = Inr (m\<lparr>cursor := i\<rparr>, replicate (length es) None)"
      by (rule run)
    show "m\<lparr>cursor := i\<rparr> = m\<lparr>cursor := cursor (m\<lparr>cursor := i\<rparr>)\<rparr>" by simp
    show "0 \<le> cursor (m\<lparr>cursor := i\<rparr>)" using lo by simp
    show "cursor (m\<lparr>cursor := i\<rparr>) \<le> max (int (length (elems (channels m))) - 1) 0"
      using hi by simp
    show "elems (channels m) = [] \<longrightarrow> m\<lparr>cursor := i\<rparr> = m" using emp by simp
  qed
qed

text \<open>
  The hypotheses of C6 hold in the initial state, where the keys change nothing, and with
  the catalog of two channels, where the second and the third of three moves down are
  stopped at the last row and a move up brings the cursor back to the first.
\<close>

theorem cursor_stays_clamped_witness:
  "set [KeyMsg ''down'', KeyMsg ''j'', KeyMsg ''down'', KeyMsg ''k'']
     \<subseteq> {KeyMsg ''up'', KeyMsg ''k'', KeyMsg ''down'', KeyMsg ''j''}
   \<and> 0 \<le> cursor ex_playing0
   \<and> cursor ex_playing0 \<le> max (int (length (elems (channels ex_playing0))) - 1) 0
   \<and> run_events ex_http_ok ex_playing0 [KeyMsg ''down'', KeyMsg ''j'', KeyMsg ''down'', KeyMsg ''k'']
      = Inr (ex_playing0, [None, None, None, None])
   \<and> run_events ex_http_ok initialModel [KeyMsg ''down'', KeyMsg ''j'', KeyMsg ''down'', KeyMsg ''k'']
      = Inr (initialModel, [None, None, None, None])"
proof -
  let ?es = "[KeyMsg ''down'', KeyMsg ''j'', KeyMsg ''down'', KeyMsg ''k'']"
  have a: "set ?es \<subseteq> {KeyMsg ''up'', KeyMsg ''k'', KeyMsg ''down'', KeyMsg ''j''}" by simp
  have b: "0 \<le> cursor ex_playing0" by (simp add: ex_playing0_def)
  have c: "cursor ex_playing0 \<le> max (int (length (elems (channels ex_playing0))) - 1) 0"
    by (simp add: ex_playing0_def ex_catalog_def)
  have b0: "0 \<le> cursor initialModel" by (simp add: initialModel_def)
  have c0: "cursor initialModel \<le> max (int (length (elems (channels initialModel))) - 1) 0"
    by (simp add: initialModel_def nil_slice_def)
  have e0: "elems (channels initialModel) = []" by (simp add: initialModel_def nil_slice_def)
  have r: "run_events ex_http_ok ex_playing0 ?es = Inr (ex_playing0, [None, None, None, None])"
    by (simp add: Update_key_def ex_playing0_def ex_catalog_def)
  obtain m' where run: "run_events ex_http_ok initialModel ?es = Inr (m', replicate (length ?es) None)"
    and emp: "elems (channels initialModel) = [] \<longrightarrow> m' = initialModel"
    using cursor_stays_clamped [OF a b0 c0, of ex_http_ok] by blast
  have "m' = initialModel" using emp e0 by simp
  then have "run_events ex_http_ok initialModel ?es = Inr (initialModel, [None, None, None, None])"
    using run by simp
  then show ?thesis using a b c r by simp
qed

subsection \<open>The frame\<close>

text \<open>
  Claim C7, as the code has it. When the last error is present, the frame is the loading
  indicator alone while the loading flag is set, and otherwise the styled error message
  alone, whatever the playback phase: \<open>View\<close> returns before it renders the channel list.
\<close>

theorem view_error_replaces_list:
  assumes "err m = Some e"
  shows "View render runeCount heap m
    = (if loading m then ''Loading channels...'' @ nl
       else render errorStyle (''Error: '' @ error_string e @ nl))"
  using assms by (simp add: View_def)

text \<open>The hypothesis of the amended C7 holds for a playing state with an error.\<close>

theorem view_error_replaces_list_witness:
  "err (ex_playing0\<lparr>err := Some (ErrorString ''boom'')\<rparr>) = Some (ErrorString ''boom'')
   \<and> View ex_render length ex_heap (ex_playing0\<lparr>err := Some (ErrorString ''boom'')\<rparr>)
      = ''Error: boom'' @ nl"
proof -
  have e: "err (ex_playing0\<lparr>err := Some (ErrorString ''boom'')\<rparr>) = Some (ErrorString ''boom'')"
    by simp
  have "\<not> loading (ex_playing0\<lparr>err := Some (ErrorString ''boom'')\<rparr>)"
    by (simp add: ex_playing0_def)
  then show ?thesis
    using e view_error_replaces_list [OF e, of ex_render length ex_heap]
    by (simp add: ex_render_def)
qed

text \<open>
  Claim C7 fails as stated. With two channels in the catalog and an error present, the
  frame is the error line and nothing else: it is the frame of the same state with no
  channel at all, so the list is not rendered. With the loading flag set, the frame is the
  loading indicator and the error is not shown.
\<close>

theorem view_error_hides_list:
  "View ex_render length ex_heap (ex_playing0\<lparr>err := Some (ErrorString ''boom'')\<rparr>)
     = ''Error: boom'' @ nl
   \<and> View ex_render length ex_heap
       (ex_playing0\<lparr>channels := nil_slice, err := Some (ErrorString ''boom'')\<rparr>)
     = ''Error: boom'' @ nl
   \<and> View ex_render length ex_heap (initialModel\<lparr>err := Some (ErrorString ''boom'')\<rparr>)
     = ''Loading channels...'' @ nl"
  by (simp add: View_def ex_playing0_def initialModel_def ex_render_def)

end
